theory Spec2Isabelle
  imports Main "HOL-Library.Word" "HOL-Library.Char_ord" "HOL-Library.List_Lexorder"
    "HOL-Library.Multiset"
begin

unbundle bit_operations_syntax

section \<open>Data model\<close>

text \<open>
  The change records of a session, as the session manager, the deduplicator and the
  rollback engine read and write them (\<^verbatim>\<open>SessionChange\<close>: fields \<^verbatim>\<open>p\<close>, \<^verbatim>\<open>op\<close>,
  \<^verbatim>\<open>from\<close>, \<^verbatim>\<open>hOld\<close>, \<^verbatim>\<open>hNew\<close> and the optional size, mtime, mode and EOL pairs).
  An optional field is an \<open>option\<close>; \<^verbatim>\<open>undefined\<close> is \<open>None\<close>. The field \<^verbatim>\<open>from\<close> is
  called \<open>frm\<close> here. Strings are lists of 8-bit characters.
\<close>

datatype ChangeOp = created | modified | deleted | renamed

datatype EOLType = lf | crlf | cr | mixed

record SessionChange =
  p :: string
  op :: ChangeOp
  frm :: "string option"
  hOld :: "string option"
  hNew :: "string option"
  sizeBefore :: "int option"
  sizeAfter :: "int option"
  mtimeBefore :: "int option"
  mtimeAfter :: "int option"
  modeBefore :: "int option"
  modeAfter :: "int option"
  eolBefore :: "EOLType option"
  eolAfter :: "EOLType option"

text \<open>
  JavaScript's \<^verbatim>\<open>a || b\<close> on an optional string: \<^verbatim>\<open>undefined\<close> and the empty string
  are falsy.
\<close>

definition or_else :: "string option \<Rightarrow> string \<Rightarrow> string" where
  "or_else a b = (case a of None \<Rightarrow> b | Some s \<Rightarrow> if s = [] then b else s)"

section \<open>Rollback engine: the inverse change list\<close>

text \<open>
  \<^verbatim>\<open>SessionRollback.reverseChanges\<close>: the body of the \<^verbatim>\<open>map\<close> callback, one case per
  operation, starting from a copy of the change.
\<close>

definition inverse_change :: "SessionChange \<Rightarrow> SessionChange" where
  "inverse_change change =
     (case op change of
        created \<Rightarrow> change\<lparr>op := deleted, hOld := hNew change, hNew := None\<rparr>
      | modified \<Rightarrow>
          change\<lparr>hOld := hNew change, hNew := hOld change,
                 sizeBefore := sizeAfter change, sizeAfter := sizeBefore change,
                 mtimeBefore := mtimeAfter change, mtimeAfter := mtimeBefore change,
                 modeBefore := modeAfter change, modeAfter := modeBefore change,
                 eolBefore := eolAfter change, eolAfter := eolBefore change\<rparr>
      | deleted \<Rightarrow> change\<lparr>op := created, hNew := hOld change, hOld := None\<rparr>
      | renamed \<Rightarrow>
          change\<lparr>p := or_else (frm change) (p change), frm := Some (p change),
                 hOld := hNew change, hNew := hOld change\<rparr>)"

definition reverseChanges :: "SessionChange list \<Rightarrow> SessionChange list" where
  "reverseChanges changes = map inverse_change (rev changes)"

text \<open>
  The inverse of one record as the specification words it, as a relation between the
  original record \<open>c\<close> and its inverse \<open>i\<close>.
\<close>

definition spec_inverse_rel :: "SessionChange \<Rightarrow> SessionChange \<Rightarrow> bool" where
  "spec_inverse_rel c i =
     (case op c of
        created \<Rightarrow> op i = deleted \<and> hOld i = hNew c \<and> hNew i = None
      | modified \<Rightarrow>
          op i = modified \<and> hOld i = hNew c \<and> hNew i = hOld c
          \<and> sizeBefore i = sizeAfter c \<and> sizeAfter i = sizeBefore c
          \<and> mtimeBefore i = mtimeAfter c \<and> mtimeAfter i = mtimeBefore c
          \<and> modeBefore i = modeAfter c \<and> modeAfter i = modeBefore c
          \<and> eolBefore i = eolAfter c \<and> eolAfter i = eolBefore c
      | deleted \<Rightarrow> op i = created \<and> hNew i = hOld c \<and> hOld i = None
      | renamed \<Rightarrow>
          op i = renamed \<and> Some (p i) = frm c \<and> frm i = Some (p c)
          \<and> hOld i = hNew c \<and> hNew i = hOld c)"

text \<open>A rename record that carries a usable source path.\<close>

definition has_from :: "SessionChange \<Rightarrow> bool" where
  "has_from c = (case frm c of None \<Rightarrow> False | Some f \<Rightarrow> f \<noteq> [])"

text \<open>Concrete records used as test inputs below.\<close>

definition mk_change :: "string \<Rightarrow> ChangeOp \<Rightarrow> SessionChange" where
  "mk_change path oper =
     \<lparr>p = path, op = oper, frm = None, hOld = None, hNew = None,
      sizeBefore = None, sizeAfter = None, mtimeBefore = None, mtimeAfter = None,
      modeBefore = None, modeAfter = None, eolBefore = None, eolAfter = None\<rparr>"

section \<open>SHA-256 and hexadecimal digests\<close>

text \<open>
  The digests come from Node's \<^verbatim>\<open>createHash("sha256")\<close>, which is not part of the
  repository. It is modelled by SHA-256 itself (FIPS 180-4) on 32-bit words, with the
  round constants and the initial hash value of the standard written in decimal, and
  \<^verbatim>\<open>digest("hex")\<close> by lower-case hexadecimal. A text passed to \<^verbatim>\<open>update\<close> is hashed
  as its bytes, one per character.
\<close>

type_synonym byte = "8 word"

type_synonym u32 = "32 word"

definition rotr :: "nat \<Rightarrow> u32 \<Rightarrow> u32" where
  "rotr n x = drop_bit n x OR push_bit (32 - n) x"

definition Ch :: "u32 \<Rightarrow> u32 \<Rightarrow> u32 \<Rightarrow> u32" where
  "Ch x y z = (x AND y) XOR (NOT x AND z)"

definition Maj :: "u32 \<Rightarrow> u32 \<Rightarrow> u32 \<Rightarrow> u32" where
  "Maj x y z = (x AND y) XOR (x AND z) XOR (y AND z)"

definition bsig0 :: "u32 \<Rightarrow> u32" where
  "bsig0 x = rotr 2 x XOR rotr 13 x XOR rotr 22 x"

definition bsig1 :: "u32 \<Rightarrow> u32" where
  "bsig1 x = rotr 6 x XOR rotr 11 x XOR rotr 25 x"

definition ssig0 :: "u32 \<Rightarrow> u32" where
  "ssig0 x = rotr 7 x XOR rotr 18 x XOR drop_bit 3 x"

definition ssig1 :: "u32 \<Rightarrow> u32" where
  "ssig1 x = rotr 17 x XOR rotr 19 x XOR drop_bit 10 x"

definition sha256_K :: "u32 list" where
  "sha256_K =
   [1116352408, 1899447441, 3049323471, 3921009573, 961987163, 1508970993, 2453635748,
    2870763221, 3624381080, 310598401, 607225278, 1426881987, 1925078388, 2162078206,
    2614888103, 3248222580, 3835390401, 4022224774, 264347078, 604807628, 770255983,
    1249150122, 1555081692, 1996064986, 2554220882, 2821834349, 2952996808, 3210313671,
    3336571891, 3584528711, 113926993, 338241895, 666307205, 773529912, 1294757372,
    1396182291, 1695183700, 1986661051, 2177026350, 2456956037, 2730485921, 2820302411,
    3259730800, 3345764771, 3516065817, 3600352804, 4094571909, 275423344, 430227734,
    506948616, 659060556, 883997877, 958139571, 1322822218, 1537002063, 1747873779,
    1955562222, 2024104815, 2227730452, 2361852424, 2428436474, 2756734187, 3204031479,
    3329325298]"

definition sha256_H0 :: "u32 list" where
  "sha256_H0 =
   [1779033703, 3144134277, 1013904242, 2773480762, 1359893119, 2600822924, 528734635,
    1541459225]"

fun be32 :: "byte list \<Rightarrow> u32 list" where
  "be32 (a # b # c # d # r) =
     (push_bit 24 (ucast a) OR push_bit 16 (ucast b) OR push_bit 8 (ucast c) OR ucast d)
     # be32 r"
| "be32 _ = []"

text \<open>Padding: a one bit, zeros, and the bit length as a 64-bit big-endian number.\<close>

definition pad :: "byte list \<Rightarrow> byte list" where
  "pad m = m @ [0x80] @ replicate ((119 - length m mod 64) mod 64) 0
           @ map (\<lambda>i. ucast (drop_bit (8 * (7 - i)) (8 * word_of_nat (length m) :: 64 word)))
               [0..<8]"

fun chunks :: "nat \<Rightarrow> 'a list \<Rightarrow> 'a list list" where
  "chunks 0 xs = []"
| "chunks (Suc n) xs = (if xs = [] then [] else take 16 xs # chunks n (drop 16 xs))"

text \<open>The message schedule, newest word first.\<close>

fun sched :: "nat \<Rightarrow> u32 list \<Rightarrow> u32 list" where
  "sched 0 ws = ws"
| "sched (Suc n) ws =
     sched n ((ssig1 (ws ! 1) + ws ! 6 + ssig0 (ws ! 14) + ws ! 15) # ws)"

fun round :: "u32 list \<Rightarrow> u32 \<times> u32 \<Rightarrow> u32 list" where
  "round [a, b, c, d, e, f, g, h] (k, w) =
     (let t1 = h + bsig1 e + Ch e f g + k + w; t2 = bsig0 a + Maj a b c
      in [t1 + t2, a, b, c, d + t1, e, f, g])"
| "round s _ = s"

definition compress :: "u32 list \<Rightarrow> u32 list \<Rightarrow> u32 list" where
  "compress hs blk =
     map2 (+) hs (foldl round hs (zip sha256_K (rev (sched 48 (rev blk)))))"

definition bytes_of_u32 :: "u32 \<Rightarrow> byte list" where
  "bytes_of_u32 w =
     [ucast (drop_bit 24 w), ucast (drop_bit 16 w), ucast (drop_bit 8 w), ucast w]"

definition sha256 :: "byte list \<Rightarrow> byte list" where
  "sha256 m =
     concat (map bytes_of_u32
       (foldl compress sha256_H0 (chunks (length m div 64 + 2) (be32 (pad m)))))"

definition hexdigit :: "nat \<Rightarrow> char" where
  "hexdigit n = ''0123456789abcdef'' ! (n mod 16)"

definition hex :: "byte list \<Rightarrow> string" where
  "hex bs = concat (map (\<lambda>b. [hexdigit (unat b div 16), hexdigit (unat b mod 16)]) bs)"

definition sha256_hex :: "byte list \<Rightarrow> string" where
  "sha256_hex m = hex (sha256 m)"

definition bytes_of :: "string \<Rightarrow> byte list" where
  "bytes_of s = map (\<lambda>c. of_nat (of_char c)) s"

section \<open>Deduplicator: the session fingerprint\<close>

definition op_name :: "ChangeOp \<Rightarrow> string" where
  "op_name oper =
     (case oper of created \<Rightarrow> ''created'' | modified \<Rightarrow> ''modified''
      | deleted \<Rightarrow> ''deleted'' | renamed \<Rightarrow> ''renamed'')"

text \<open>
  \<^verbatim>\<open>SessionDeduplication.computeFingerprint\<close>. The template string of the \<^verbatim>\<open>map\<close>
  callback is \<open>fingerprint_item\<close>; \<^verbatim>\<open>items.sort()\<close> is the ascending order on strings;
  the loop of \<^verbatim>\<open>hash.update(item)\<close> hashes the items one after the other, that is,
  their concatenation.
\<close>

definition fingerprint_item :: "SessionChange \<Rightarrow> string" where
  "fingerprint_item change =
     p change @ '':'' @ op_name (op change) @ '':'' @ or_else (hOld change) ''''
     @ '':'' @ or_else (hNew change) ''''"

definition computeFingerprint :: "SessionChange list \<Rightarrow> string" where
  "computeFingerprint changes =
     (if changes = [] then ''''
      else sha256_hex (bytes_of (concat (sort (map fingerprint_item changes)))))"

text \<open>
  The fingerprint as the specification words it: the sorted lines joined with a newline,
  then hashed.
\<close>

fun join_with :: "string \<Rightarrow> string list \<Rightarrow> string" where
  "join_with sep [] = ''''"
| "join_with sep [x] = x"
| "join_with sep (x # y # ys) = x @ sep @ join_with sep (y # ys)"

definition spec_fingerprint :: "SessionChange list \<Rightarrow> string" where
  "spec_fingerprint changes =
     sha256_hex (bytes_of (join_with [CHR 0x0A] (sort (map fingerprint_item changes))))"

section \<open>File system\<close>

text \<open>
  The Node file-system calls the engine makes, on an explicit state. A state holds the
  regular files (path to content), the directories, a clock that counts the calls made so
  far, and a fault schedule: \<open>faults st n c\<close> is the error, if any, with which call \<open>c\<close>
  fails when it is the \<open>n\<close>-th call. A call that fails changes nothing but the clock.
  Exceptions are values: a call returns \<open>Inl\<close> of the exception or \<open>Inr\<close> of its result.
  Reading, renaming, copying and unlinking act on regular files: on a path that holds no
  regular file they fail with \<open>ENOENT\<close>. \<^verbatim>\<open>existsSync\<close> is true of files and of
  directories and never fails.
\<close>

type_synonym path = string

datatype errno = ENOENT | EXDEV | EACCES | EIO | ENOSPC

datatype fsop =
    OpMkdir path
  | OpWriteFile path
  | OpReadFile path
  | OpRename path path
  | OpCopyFile path path
  | OpUnlink path
  | OpRm path
  | OpUtimes path
  | OpChmod path

datatype exn = SysError errno | Error string

record 'c fsys =
  files :: "path \<rightharpoonup> 'c"
  dirs :: "path set"
  faults :: "nat \<Rightarrow> fsop \<Rightarrow> errno option"
  clock :: nat

type_synonym ('a, 'c) io = "'c fsys \<Rightarrow> (exn + 'a) \<times> 'c fsys"

definition errno_name :: "errno \<Rightarrow> string" where
  "errno_name e =
     (case e of ENOENT \<Rightarrow> ''ENOENT'' | EXDEV \<Rightarrow> ''EXDEV'' | EACCES \<Rightarrow> ''EACCES''
      | EIO \<Rightarrow> ''EIO'' | ENOSPC \<Rightarrow> ''ENOSPC'')"

text \<open>\<^verbatim>\<open>error instanceof Error ? error.message : String(error)\<close>\<close>

definition message_of :: "exn \<Rightarrow> string" where
  "message_of e = (case e of SysError c \<Rightarrow> errno_name c | Error m \<Rightarrow> m)"

definition io_return :: "'a \<Rightarrow> ('a, 'c) io" where
  "io_return x st = (Inr x, st)"

definition io_throw :: "exn \<Rightarrow> ('a, 'c) io" where
  "io_throw e st = (Inl e, st)"

definition io_bind :: "('a, 'c) io \<Rightarrow> ('a \<Rightarrow> ('b, 'c) io) \<Rightarrow> ('b, 'c) io" where
  "io_bind m f st = (case m st of (Inl e, st') \<Rightarrow> (Inl e, st') | (Inr x, st') \<Rightarrow> f x st')"

definition io_catch :: "('a, 'c) io \<Rightarrow> (exn \<Rightarrow> ('a, 'c) io) \<Rightarrow> ('a, 'c) io" where
  "io_catch m h st = (case m st of (Inl e, st') \<Rightarrow> h e st' | (Inr x, st') \<Rightarrow> (Inr x, st'))"

definition sys_call :: "fsop \<Rightarrow> ('a, 'c) io \<Rightarrow> ('a, 'c) io" where
  "sys_call c body st =
     (let st' = st\<lparr>clock := Suc (clock st)\<rparr>
      in case faults st (clock st) c of
           Some e \<Rightarrow> (Inl (SysError e), st')
         | None \<Rightarrow> body st')"

text \<open>\<open>is_under d q\<close>: the path \<open>q\<close> is the directory \<open>d\<close> or lies below it.\<close>

definition is_under :: "path \<Rightarrow> path \<Rightarrow> bool" where
  "is_under d q = (q = d \<or> take (Suc (length d)) q = d @ ''/'')"

definition existsSync :: "path \<Rightarrow> 'c fsys \<Rightarrow> bool" where
  "existsSync q st = (files st q \<noteq> None \<or> q \<in> dirs st)"

definition fs_mkdir :: "path \<Rightarrow> (unit, 'c) io" where
  "fs_mkdir q = sys_call (OpMkdir q) (\<lambda>st. (Inr (), st\<lparr>dirs := insert q (dirs st)\<rparr>))"

definition fs_writeFile :: "path \<Rightarrow> 'c \<Rightarrow> (unit, 'c) io" where
  "fs_writeFile q c =
     sys_call (OpWriteFile q) (\<lambda>st. (Inr (), st\<lparr>files := (files st)(q \<mapsto> c)\<rparr>))"

definition fs_readFile :: "path \<Rightarrow> ('c, 'c) io" where
  "fs_readFile q =
     sys_call (OpReadFile q)
       (\<lambda>st. case files st q of None \<Rightarrow> (Inl (SysError ENOENT), st) | Some c \<Rightarrow> (Inr c, st))"

definition fs_rename :: "path \<Rightarrow> path \<Rightarrow> (unit, 'c) io" where
  "fs_rename src dst =
     sys_call (OpRename src dst)
       (\<lambda>st. case files st src of
                None \<Rightarrow> (Inl (SysError ENOENT), st)
              | Some c \<Rightarrow> (Inr (), st\<lparr>files := (files st)(src := None, dst \<mapsto> c)\<rparr>))"

definition fs_copyFile :: "path \<Rightarrow> path \<Rightarrow> (unit, 'c) io" where
  "fs_copyFile src dst =
     sys_call (OpCopyFile src dst)
       (\<lambda>st. case files st src of
                None \<Rightarrow> (Inl (SysError ENOENT), st)
              | Some c \<Rightarrow> (Inr (), st\<lparr>files := (files st)(dst \<mapsto> c)\<rparr>))"

definition fs_unlink :: "path \<Rightarrow> (unit, 'c) io" where
  "fs_unlink q =
     sys_call (OpUnlink q)
       (\<lambda>st. case files st q of
                None \<Rightarrow> (Inl (SysError ENOENT), st)
              | Some c \<Rightarrow> (Inr (), st\<lparr>files := (files st)(q := None)\<rparr>))"

text \<open>\<^verbatim>\<open>fs.rm(dir, { recursive: true, force: true })\<close>\<close>

definition fs_rm :: "path \<Rightarrow> (unit, 'c) io" where
  "fs_rm d =
     sys_call (OpRm d)
       (\<lambda>st. (Inr (), st\<lparr>files := (\<lambda>q. if is_under d q then None else files st q),
                          dirs := {q \<in> dirs st. \<not> is_under d q}\<rparr>))"

text \<open>Times and modes are not part of the state; the calls can only fail.\<close>

definition fs_utimes :: "path \<Rightarrow> (unit, 'c) io" where
  "fs_utimes q =
     sys_call (OpUtimes q)
       (\<lambda>st. if existsSync q st then (Inr (), st) else (Inl (SysError ENOENT), st))"

definition fs_chmod :: "path \<Rightarrow> (unit, 'c) io" where
  "fs_chmod q =
     sys_call (OpChmod q)
       (\<lambda>st. if existsSync q st then (Inr (), st) else (Inl (SysError ENOENT), st))"

text \<open>
  \<^verbatim>\<open>safeRename\<close> (the same in \<^verbatim>\<open>SessionRollback\<close> and \<^verbatim>\<open>SessionRecovery\<close>): rename, and on
  \<^verbatim>\<open>EXDEV\<close> copy and unlink instead; any other error is thrown again.
\<close>

definition safeRename :: "path \<Rightarrow> path \<Rightarrow> (unit, 'c) io" where
  "safeRename src dst =
     io_catch (fs_rename src dst)
       (\<lambda>e. if e = SysError EXDEV
             then io_bind (fs_copyFile src dst) (\<lambda>_. fs_unlink src)
             else io_throw e)"

text \<open>
  \<^verbatim>\<open>path.join\<close>: the non-empty arguments joined with \<open>/\<close>. Node also normalises the
  result (\<open>.\<close>, \<open>..\<close> and doubled separators); that step is the identity on the paths
  the engine builds from a normalised root and relative paths without such segments,
  and is left out.
\<close>

definition path_join :: "string list \<Rightarrow> path" where
  "path_join segs = join_with ''/'' (filter (\<lambda>s. s \<noteq> []) segs)"

section \<open>BlobStore on the file system\<close>

datatype BlobStoreErrorCode =
    HASH_MISMATCH | BLOB_NOT_FOUND | STORAGE_FULL | COMPRESSION_FAILED
  | DECOMPRESSION_FAILED | IO_ERROR

record BlobStoreError =
  code :: BlobStoreErrorCode
  message :: string

type_synonym 'a blob_result = "BlobStoreError + 'a"

record FilesystemBlobStore =
  basePath :: path
  initialized :: bool

text \<open>The \<^verbatim>\<open>LZ4\<close> object of the source is a placeholder: both directions return the buffer.\<close>

definition lz4_compress :: "byte list \<Rightarrow> exn + byte list" where
  "lz4_compress buf = Inr buf"

definition lz4_decompress :: "byte list \<Rightarrow> exn + byte list" where
  "lz4_decompress buf = Inr buf"

definition getShardPath :: "FilesystemBlobStore \<Rightarrow> string \<Rightarrow> path" where
  "getShardPath bs hash =
     path_join [basePath bs, ''sha256'', take 2 hash, take 2 (drop 2 hash)]"

definition getFilePath :: "FilesystemBlobStore \<Rightarrow> string \<Rightarrow> path" where
  "getFilePath bs hash = path_join [getShardPath bs hash, hash @ ''.lz4'']"

definition blob_err :: "BlobStoreErrorCode \<Rightarrow> string \<Rightarrow> 'a blob_result" where
  "blob_err c m = Inl \<lparr>code = c, message = m\<rparr>"

definition put :: "FilesystemBlobStore \<Rightarrow> byte list \<Rightarrow> byte list fsys
    \<Rightarrow> string blob_result \<times> byte list fsys" where
  "put bs buf st =
     (if \<not> initialized bs then (blob_err IO_ERROR ''BlobStore not initialized'', st)
      else
        let hash = sha256_hex buf;
            shardPath = getShardPath bs hash;
            filePath = getFilePath bs hash
        in if existsSync filePath st then (Inr hash, st)
           else case fs_mkdir shardPath st of
                  (Inl e, st1) \<Rightarrow>
                    (blob_err IO_ERROR (''Failed to store blob: '' @ message_of e), st1)
                | (Inr _, st1) \<Rightarrow>
                    (case lz4_compress buf of
                       Inl e \<Rightarrow>
                         (blob_err COMPRESSION_FAILED
                            (''LZ4 compression failed: '' @ message_of e), st1)
                     | Inr compressed \<Rightarrow>
                         (case fs_writeFile filePath compressed st1 of
                            (Inl e, st2) \<Rightarrow>
                              (blob_err IO_ERROR
                                 (''Failed to store blob: '' @ message_of e), st2)
                          | (Inr _, st2) \<Rightarrow> (Inr hash, st2))))"

definition get :: "FilesystemBlobStore \<Rightarrow> string \<Rightarrow> byte list fsys
    \<Rightarrow> byte list option blob_result \<times> byte list fsys" where
  "get bs hash st =
     (if \<not> initialized bs then (blob_err IO_ERROR ''BlobStore not initialized'', st)
      else
        let filePath = getFilePath bs hash
        in if \<not> existsSync filePath st then (Inr None, st)
           else case fs_readFile filePath st of
                  (Inl e, st1) \<Rightarrow>
                    (blob_err IO_ERROR (''Failed to retrieve blob: '' @ message_of e), st1)
                | (Inr compressed, st1) \<Rightarrow>
                    (case lz4_decompress compressed of
                       Inl e \<Rightarrow>
                         (blob_err DECOMPRESSION_FAILED
                            (''LZ4 decompression failed: '' @ message_of e), st1)
                     | Inr decompressed \<Rightarrow>
                         (let computedHash = sha256_hex decompressed
                          in if computedHash \<noteq> hash
                             then (blob_err HASH_MISMATCH
                                     (''Hash verification failed: expected '' @ hash
                                      @ '', got '' @ computedHash), st1)
                             else (Inr (Some decompressed), st1))))"

text \<open>A file system with the given files, no directories and no faults.\<close>

definition fs_of :: "(path \<rightharpoonup> 'c) \<Rightarrow> 'c fsys" where
  "fs_of fm = \<lparr>files = fm, dirs = {}, faults = (\<lambda>n c. None), clock = 0\<rparr>"

section \<open>Session manager\<close>

text \<open>
  Node's POSIX \<^verbatim>\<open>path.relative(from, to)\<close>, which is not part of the repository: both
  paths are resolved (made absolute against the working directory, empty and \<open>.\<close>
  segments dropped, \<open>..\<close> stepping up but never above the root), the common leading
  segments are removed, and the result climbs out of what is left of \<open>from\<close> with \<open>..\<close>
  and descends into what is left of \<open>to\<close>.
\<close>

fun split_on :: "char \<Rightarrow> string \<Rightarrow> string list" where
  "split_on sep [] = [[]]"
| "split_on sep (c # cs) =
     (if c = sep then [] # split_on sep cs
      else (case split_on sep cs of [] \<Rightarrow> [[c]] | x # xs \<Rightarrow> (c # x) # xs))"

fun norm_segs :: "string list \<Rightarrow> string list \<Rightarrow> string list" where
  "norm_segs acc [] = rev acc"
| "norm_segs acc (s # ss) =
     (if s = [] \<or> s = ''.'' then norm_segs acc ss
      else if s = ''..'' then norm_segs (tl acc) ss
      else norm_segs (s # acc) ss)"

definition is_absolute :: "path \<Rightarrow> bool" where
  "is_absolute q = (case q of [] \<Rightarrow> False | c # _ \<Rightarrow> c = CHR ''/'')"

definition resolve_segs :: "path \<Rightarrow> path \<Rightarrow> string list" where
  "resolve_segs cwd q =
     norm_segs [] (split_on CHR ''/'' (if is_absolute q then q else cwd @ ''/'' @ q))"

fun strip_common :: "string list \<Rightarrow> string list \<Rightarrow> string list \<times> string list" where
  "strip_common (x # xs) (y # ys) =
     (if x = y then strip_common xs ys else (x # xs, y # ys))"
| "strip_common xs ys = (xs, ys)"

definition path_relative :: "path \<Rightarrow> path \<Rightarrow> path \<Rightarrow> path" where
  "path_relative cwd from_path to_path =
     (case strip_common (resolve_segs cwd from_path) (resolve_segs cwd to_path) of
        (up, down) \<Rightarrow> join_with ''/'' (replicate (length up) ''..'' @ down))"

datatype SessionTrigger = filewatch | pre_commit | manual | idle_finalize

record ActiveSessionState =
  sessionId :: string
  startedAt :: int
  triggers :: "SessionTrigger list"
  changeBuffer :: "SessionChange list"

text \<open>
  The manager: its options (workspace root, BlobStore), the working directory of the
  process, the ignore test (\<^verbatim>\<open>shouldIgnore\<close>, the \<^verbatim>\<open>minimatch\<close> patterns, taken as a
  predicate on relative paths) and the active session. Timers, analytics, the AI tracker
  and the optional database are left out.
\<close>

record SessionManager =
  workspaceRoot :: path
  cwd :: path
  blobStore :: FilesystemBlobStore
  shouldIgnore :: "path \<Rightarrow> bool"
  activeSession :: "ActiveSessionState option"

record TrackMeta =
  fromPath :: "string option"
  oldUri :: "string option"
  newUri :: "string option"
  size :: "int option"
  mtime :: "int option"
  mode :: "int option"

text \<open>\<^verbatim>\<open>normalizePath\<close>, with \<^verbatim>\<open>path.sep\<close> the POSIX separator.\<close>

definition normalizePath :: "SessionManager \<Rightarrow> path \<Rightarrow> path" where
  "normalizePath mgr absolutePath =
     join_with ''/''
       (split_on CHR ''/'' (path_relative (cwd mgr) (workspaceRoot mgr) absolutePath))"

text \<open>\<^verbatim>\<open>s.replace(pat, "")\<close>: the first occurrence of \<open>pat\<close> is removed.\<close>

fun remove_first :: "string \<Rightarrow> string \<Rightarrow> string" where
  "remove_first pat [] = []"
| "remove_first pat (c # cs) =
     (if take (length pat) (c # cs) = pat then drop (length pat) (c # cs)
      else c # remove_first pat cs)"

definition truthy :: "string option \<Rightarrow> bool" where
  "truthy a = (case a of None \<Rightarrow> False | Some s \<Rightarrow> s \<noteq> [])"

definition track_from :: "SessionManager \<Rightarrow> ChangeOp \<Rightarrow> TrackMeta option \<Rightarrow> string option" where
  "track_from mgr oper meta =
     (case meta of
        None \<Rightarrow> None
      | Some m \<Rightarrow>
          if oper \<noteq> renamed then None
          else if truthy (fromPath m) then Some (normalizePath mgr (the (fromPath m)))
          else if truthy (oldUri m)
            then Some (normalizePath mgr (remove_first ''file://'' (the (oldUri m))))
          else None)"

definition track :: "SessionManager \<Rightarrow> path \<Rightarrow> ChangeOp \<Rightarrow> TrackMeta option \<Rightarrow> SessionManager" where
  "track mgr absolutePath oper meta =
     (case activeSession mgr of
        None \<Rightarrow> mgr
      | Some s \<Rightarrow>
          let relPath = normalizePath mgr absolutePath
          in if shouldIgnore mgr relPath then mgr
             else
               let change =
                     \<lparr>p = relPath, op = oper, frm = track_from mgr oper meta,
                      hOld = None, hNew = None,
                      sizeBefore = None, sizeAfter = Option.bind meta size,
                      mtimeBefore = None, mtimeAfter = Option.bind meta mtime,
                      modeBefore = None, modeAfter = Option.bind meta mode,
                      eolBefore = None, eolAfter = None\<rparr>
               in mgr\<lparr>activeSession := Some (s\<lparr>changeBuffer := changeBuffer s @ [change]\<rparr>)\<rparr>)"

text \<open>
  \<^verbatim>\<open>computeDeferredHashes\<close>: for every change that is not a deletion the file is read and
  put into the BlobStore, and \<^verbatim>\<open>hNew\<close> is set when the put succeeds; a failed read is
  caught and the change is left as it is. Nothing is done for \<^verbatim>\<open>hOld\<close> (the source has a
  \<^verbatim>\<open>TODO\<close> there).
\<close>

definition hash_change :: "SessionManager \<Rightarrow> SessionChange \<Rightarrow> byte list fsys
    \<Rightarrow> SessionChange \<times> byte list fsys" where
  "hash_change mgr change st =
     (let absPath = path_join [workspaceRoot mgr, p change]
      in if op change \<noteq> deleted
         then case fs_readFile absPath st of
                (Inl e, st1) \<Rightarrow> (change, st1)
              | (Inr content, st1) \<Rightarrow>
                  (case put (blobStore mgr) content st1 of
                     (Inr h, st2) \<Rightarrow> (change\<lparr>hNew := Some h\<rparr>, st2)
                   | (Inl e, st2) \<Rightarrow> (change, st2))
         else (change, st))"

fun computeDeferredHashes :: "SessionManager \<Rightarrow> SessionChange list \<Rightarrow> byte list fsys
    \<Rightarrow> SessionChange list \<times> byte list fsys" where
  "computeDeferredHashes mgr [] st = ([], st)"
| "computeDeferredHashes mgr (change # changes) st =
     (case hash_change mgr change st of
        (change', st1) \<Rightarrow>
          (case computeDeferredHashes mgr changes st1 of
             (changes', st2) \<Rightarrow> (change' # changes', st2)))"

text \<open>
  \<^verbatim>\<open>finalize\<close>, without a database: the result is the exception when no session is active,
  and otherwise the session id, the change count and the change records as they would be
  flushed, together with the manager without an active session.
\<close>

definition finalize :: "SessionManager \<Rightarrow> byte list fsys
    \<Rightarrow> (exn + (string \<times> nat \<times> SessionChange list) \<times> SessionManager) \<times> byte list fsys" where
  "finalize mgr st =
     (case activeSession mgr of
        None \<Rightarrow> (Inl (Error ''No active session to finalize''), st)
      | Some s \<Rightarrow>
          (case computeDeferredHashes mgr (changeBuffer s) st of
             (changes, st1) \<Rightarrow>
               (Inr ((sessionId s, length (changeBuffer s), changes),
                     mgr\<lparr>activeSession := None\<rparr>), st1)))"

text \<open>
  \<^verbatim>\<open>validatePath\<close> of \<^verbatim>\<open>utils/security.ts\<close>, which the snapshot manager calls on every file
  path and the session manager does not: NUL bytes, absolute paths and \<open>..\<close> segments
  are refused. (\<^verbatim>\<open>path.normalize\<close> is applied first in the source; here the check is made
  on the segments of the path as given.)
\<close>

definition path_is_safe :: "path \<Rightarrow> bool" where
  "path_is_safe q =
     (CHR 0x00 \<notin> set q \<and> \<not> is_absolute q \<and> ''..'' \<notin> set (split_on CHR ''/'' q))"

text \<open>A manager rooted at \<open>/work\<close> with a running session, used as test input below.\<close>

definition test_manager :: SessionManager where
  "test_manager =
     \<lparr>workspaceRoot = ''/work'', cwd = ''/'',
      blobStore = \<lparr>basePath = ''/blobs'', initialized = True\<rparr>,
      shouldIgnore = (\<lambda>q. False),
      activeSession = Some \<lparr>sessionId = ''s1'', startedAt = 0, triggers = [filewatch],
                            changeBuffer = []\<rparr>\<rparr>"

section \<open>Rollback engine\<close>

text \<open>
  The journal is written with \<^verbatim>\<open>JSON.stringify\<close> and read back with \<^verbatim>\<open>JSON.parse\<close>; a
  journal file is modelled by the journal value it holds, any other file by its bytes.
\<close>

datatype JournalStatus = pending | committed | rolled_back

record JournalEntry =
  journal_sessionId :: string
  timestamp :: int
  journal_workspaceRoot :: path
  journal_changes :: "SessionChange list"
  backups :: "(path \<times> path) list"
  status :: JournalStatus

datatype content = Bytes "byte list" | JournalFile JournalEntry

record SessionManifestV1 =
  manifest_sessionId :: string
  filesChanged :: "SessionChange list"

record RollbackOptions =
  dryRun :: bool
  skipVerification :: bool

record RollbackResult =
  success :: bool
  filesReverted :: "path list"
  filesSkipped :: "path list"
  errors :: "(path \<times> string) list"
  journalPath :: "path option"

text \<open>
  The engine object: workspace root, journal directory, the \<^verbatim>\<open>get\<close> of the BlobStore
  interface it was given (any implementation), and the time \<^verbatim>\<open>Date.now()\<close> returns.
  The progress callback is left out.
\<close>

record SessionRollback =
  rb_workspaceRoot :: path
  rb_blobStore_get :: "string \<Rightarrow> byte list option blob_result"
  journalDir :: path
  rb_now :: int

text \<open>\<^verbatim>\<open>Map.set\<close> and \<^verbatim>\<open>Set.add\<close>: insertion order is kept, a key is held once.\<close>

definition map_set :: "'k \<Rightarrow> 'v \<Rightarrow> ('k \<times> 'v) list \<Rightarrow> ('k \<times> 'v) list" where
  "map_set k v m =
     (if k \<in> fst ` set m then map (\<lambda>kv. if fst kv = k then (k, v) else kv) m
      else m @ [(k, v)])"

definition set_add :: "'a \<Rightarrow> 'a list \<Rightarrow> 'a list" where
  "set_add x xs = (if x \<in> set xs then xs else xs @ [x])"

definition truthy_num :: "int option \<Rightarrow> bool" where
  "truthy_num a = (case a of None \<Rightarrow> False | Some n \<Rightarrow> n \<noteq> 0)"

text \<open>\<^verbatim>\<open>path.dirname\<close>, on paths with a directory part.\<close>

definition dirname :: "path \<Rightarrow> path" where
  "dirname q = join_with ''/'' (butlast (split_on CHR ''/'' q))"

definition stagingDir_of :: "SessionRollback \<Rightarrow> string \<Rightarrow> path" where
  "stagingDir_of rb sid = path_join [rb_workspaceRoot rb, ''.snapback-rollback-'' @ sid]"

definition journalPath_of :: "SessionRollback \<Rightarrow> string \<Rightarrow> path" where
  "journalPath_of rb sid = path_join [journalDir rb, ''pending'', sid @ ''.json'']"

definition committedPath_of :: "SessionRollback \<Rightarrow> string \<Rightarrow> path" where
  "committedPath_of rb sid = path_join [journalDir rb, ''committed'', sid @ ''.json'']"

type_synonym staged_files = "(path \<times> string \<times> byte list) list"

text \<open>
  \<^verbatim>\<open>stageChange\<close>. It returns the staged-files map and the to-delete set as they are
  after the call; when it throws, neither has changed.
\<close>

definition stageChange :: "SessionRollback \<Rightarrow> SessionChange \<Rightarrow> path \<Rightarrow> staged_files
    \<Rightarrow> path list \<Rightarrow> (staged_files \<times> path list, content) io" where
  "stageChange rb change stagingDir stagedFiles filesToDelete =
     (let stagingPath = path_join [stagingDir, p change]
      in if op change = deleted
         then io_return (stagedFiles, set_add (p change) filesToDelete)
         else if \<not> truthy (hNew change)
         then io_throw (Error (''Missing hash for '' @ op_name (op change)
                               @ '' operation on '' @ p change))
         else
           let hash = the (hNew change)
           in case rb_blobStore_get rb hash of
                Inl err \<Rightarrow>
                  io_throw (Error (''Failed to retrieve blob '' @ hash @ '': '' @ message err))
              | Inr None \<Rightarrow> io_throw (Error (''Blob not found: '' @ hash))
              | Inr (Some bytes) \<Rightarrow>
                  io_bind (fs_mkdir (dirname stagingPath)) (\<lambda>_.
                  io_bind (fs_writeFile stagingPath (Bytes bytes)) (\<lambda>_.
                  io_bind (if truthy_num (mtimeAfter change) then fs_utimes stagingPath
                           else io_return ()) (\<lambda>_.
                  io_bind (if truthy_num (modeAfter change) then fs_chmod stagingPath
                           else io_return ()) (\<lambda>_.
                  io_return (map_set (p change) (hash, bytes) stagedFiles,
                             filesToDelete))))))"

text \<open>The staging loop of \<^verbatim>\<open>rollback\<close>, with its per-change \<^verbatim>\<open>try\<close>/\<^verbatim>\<open>catch\<close>.\<close>

fun stage_all :: "SessionRollback \<Rightarrow> path \<Rightarrow> SessionChange list
    \<Rightarrow> staged_files \<times> path list \<times> RollbackResult \<Rightarrow> content fsys
    \<Rightarrow> (staged_files \<times> path list \<times> RollbackResult) \<times> content fsys" where
  "stage_all rb stagingDir [] acc st = (acc, st)"
| "stage_all rb stagingDir (change # rest) (stagedFiles, filesToDelete, result) st =
     (case stageChange rb change stagingDir stagedFiles filesToDelete st of
        (Inr (stagedFiles', filesToDelete'), st1) \<Rightarrow>
          stage_all rb stagingDir rest (stagedFiles', filesToDelete', result) st1
      | (Inl e, st1) \<Rightarrow>
          stage_all rb stagingDir rest
            (stagedFiles, filesToDelete,
             result\<lparr>filesSkipped := filesSkipped result @ [p change],
                    errors := errors result @ [(p change, message_of e)]\<rparr>) st1)"

definition validateStaging :: "staged_files \<Rightarrow> (path \<times> string) list" where
  "validateStaging stagedFiles =
     map (\<lambda>(filePath, hash, bytes).
            (filePath, ''Hash mismatch: expected '' @ hash @ '', got '' @ sha256_hex bytes))
       (filter (\<lambda>(filePath, hash, bytes). sha256_hex bytes \<noteq> hash) stagedFiles)"

text \<open>\<^verbatim>\<open>cleanupStaging\<close> swallows every error.\<close>

definition cleanupStaging :: "path \<Rightarrow> content fsys \<Rightarrow> content fsys" where
  "cleanupStaging stagingDir st =
     (if existsSync stagingDir st then snd (fs_rm stagingDir st) else st)"

text \<open>
  \<^verbatim>\<open>atomicSwap\<close>. The accumulator holds the three lists of the function and
  \<^verbatim>\<open>journal.backups\<close>. A step returns \<open>Some e\<close> when the exception \<open>e\<close> leaves the
  per-file \<^verbatim>\<open>catch\<close> block (the restore from the backup failed), which ends the loops.
\<close>

record swap_acc =
  reverted :: "path list"
  skipped :: "path list"
  swap_errors :: "(path \<times> string) list"
  swap_backups :: "(path \<times> path) list"

definition swap_failed :: "path \<Rightarrow> path \<Rightarrow> path \<Rightarrow> exn \<Rightarrow> swap_acc \<Rightarrow> content fsys
    \<Rightarrow> (exn option \<times> swap_acc) \<times> content fsys" where
  "swap_failed relPath absPath backupPath e acc st =
     (let acc' = acc\<lparr>skipped := skipped acc @ [relPath],
                      swap_errors := swap_errors acc @ [(relPath, message_of e)]\<rparr>
      in if existsSync backupPath st
         then case safeRename backupPath absPath st of
                (Inl e2, st') \<Rightarrow> ((Some e2, acc'), st')
              | (Inr _, st') \<Rightarrow> ((None, acc'), st')
         else ((None, acc'), st))"

definition swap_file :: "SessionRollback \<Rightarrow> string \<Rightarrow> path \<Rightarrow> swap_acc \<Rightarrow> content fsys
    \<Rightarrow> (exn option \<times> swap_acc) \<times> content fsys" where
  "swap_file rb sid relPath acc st =
     (let absPath = path_join [rb_workspaceRoot rb, relPath];
          stagingPath = path_join [rb_workspaceRoot rb, ''.snapback-rollback-'' @ sid, relPath];
          backupPath = absPath @ ''.bak-'' @ sid
      in case (if existsSync absPath st
               then case safeRename absPath backupPath st of
                      (Inl e, st1) \<Rightarrow> (Inl e, acc, st1)
                    | (Inr _, st1) \<Rightarrow>
                        (Inr (),
                         acc\<lparr>swap_backups := swap_backups acc @ [(absPath, backupPath)]\<rparr>,
                         st1)
               else (Inr (), acc, st)) of
           (Inl e, acc1, st1) \<Rightarrow> swap_failed relPath absPath backupPath e acc1 st1
         | (Inr _, acc1, st1) \<Rightarrow>
             (case safeRename stagingPath absPath st1 of
                (Inl e, st2) \<Rightarrow> swap_failed relPath absPath backupPath e acc1 st2
              | (Inr _, st2) \<Rightarrow>
                  ((None, acc1\<lparr>reverted := reverted acc1 @ [relPath]\<rparr>), st2)))"

definition delete_file :: "SessionRollback \<Rightarrow> string \<Rightarrow> path \<Rightarrow> swap_acc \<Rightarrow> content fsys
    \<Rightarrow> (exn option \<times> swap_acc) \<times> content fsys" where
  "delete_file rb sid relPath acc st =
     (let absPath = path_join [rb_workspaceRoot rb, relPath];
          backupPath = absPath @ ''.bak-'' @ sid
      in if existsSync absPath st
         then case safeRename absPath backupPath st of
                (Inl e, st1) \<Rightarrow> swap_failed relPath absPath backupPath e acc st1
              | (Inr _, st1) \<Rightarrow>
                  ((None, acc\<lparr>swap_backups := swap_backups acc @ [(absPath, backupPath)],
                              reverted := reverted acc @ [relPath]\<rparr>), st1)
         else ((None, acc\<lparr>skipped := skipped acc @ [relPath]\<rparr>), st))"

fun swap_loop :: "(path \<Rightarrow> swap_acc \<Rightarrow> content fsys \<Rightarrow> (exn option \<times> swap_acc) \<times> content fsys)
    \<Rightarrow> path list \<Rightarrow> swap_acc \<Rightarrow> content fsys
    \<Rightarrow> (exn option \<times> swap_acc) \<times> content fsys" where
  "swap_loop step [] acc st = ((None, acc), st)"
| "swap_loop step (relPath # rest) acc st =
     (case step relPath acc st of
        ((Some e, acc'), st') \<Rightarrow> ((Some e, acc'), st')
      | ((None, acc'), st') \<Rightarrow> swap_loop step rest acc' st')"

text \<open>The outer \<^verbatim>\<open>catch\<close> of \<^verbatim>\<open>atomicSwap\<close>: every backup still present is renamed back.\<close>

fun restore_backups :: "(path \<times> path) list \<Rightarrow> content fsys \<Rightarrow> content fsys" where
  "restore_backups [] st = st"
| "restore_backups ((orig, bak) # rest) st =
     restore_backups rest
       (if existsSync bak st then snd (safeRename bak orig st) else st)"

record SwapResult =
  sw_success :: bool
  sw_reverted :: "path list"
  sw_skipped :: "path list"
  sw_errors :: "(path \<times> string) list"

definition atomicSwap :: "SessionRollback \<Rightarrow> staged_files \<Rightarrow> path list \<Rightarrow> string
    \<Rightarrow> content fsys \<Rightarrow> (SwapResult \<times> (path \<times> path) list) \<times> content fsys" where
  "atomicSwap rb stagedFiles filesToDelete sid st =
     (let acc0 = \<lparr>reverted = [], skipped = [], swap_errors = [], swap_backups = []\<rparr>
      in case (case swap_loop (swap_file rb sid) (map fst stagedFiles) acc0 st of
                 ((Some e, acc1), st1) \<Rightarrow> ((Some e, acc1), st1)
               | ((None, acc1), st1) \<Rightarrow>
                   swap_loop (delete_file rb sid) filesToDelete acc1 st1) of
           ((None, acc2), st2) \<Rightarrow>
             ((\<lparr>sw_success = (swap_errors acc2 = []), sw_reverted = reverted acc2,
                sw_skipped = skipped acc2, sw_errors = swap_errors acc2\<rparr>,
               swap_backups acc2), st2)
         | ((Some e, acc2), st2) \<Rightarrow>
             ((\<lparr>sw_success = False, sw_reverted = reverted acc2, sw_skipped = skipped acc2,
                sw_errors = (''<session>'', ''Fatal error during swap: '' @ message_of e)
                            # swap_errors acc2\<rparr>,
               swap_backups acc2), restore_backups (swap_backups acc2) st2))"

text \<open>
  The outer \<^verbatim>\<open>catch\<close> of \<^verbatim>\<open>rollback\<close>: the exception is added to the result as it is at
  that moment, and the result is returned.
\<close>

definition session_failure :: "RollbackResult \<Rightarrow> exn \<Rightarrow> RollbackResult" where
  "session_failure result e =
     result\<lparr>errors := errors result @ [(''<session>'', ''Rollback failed: '' @ message_of e)]\<rparr>"

definition try_step :: "RollbackResult \<Rightarrow> (unit, content) io
    \<Rightarrow> (content fsys \<Rightarrow> RollbackResult \<times> content fsys)
    \<Rightarrow> content fsys \<Rightarrow> RollbackResult \<times> content fsys" where
  "try_step result m k st =
     (case m st of
        (Inl e, st') \<Rightarrow> (session_failure result e, st')
      | (Inr _, st') \<Rightarrow> k st')"

fun unlink_backups :: "(path \<times> path) list \<Rightarrow> (unit, content) io" where
  "unlink_backups [] = io_return ()"
| "unlink_backups ((orig, bak) # rest) =
     (\<lambda>st. if existsSync bak st
           then io_bind (fs_unlink bak) (\<lambda>_. unlink_backups rest) st
           else unlink_backups rest st)"

definition initial_journal :: "SessionRollback \<Rightarrow> SessionManifestV1 \<Rightarrow> JournalEntry" where
  "initial_journal rb manifest =
     \<lparr>journal_sessionId = manifest_sessionId manifest, timestamp = rb_now rb,
      journal_workspaceRoot = rb_workspaceRoot rb,
      journal_changes = filesChanged manifest, backups = [], status = pending\<rparr>"

definition empty_result :: RollbackResult where
  "empty_result =
     \<lparr>success = False, filesReverted = [], filesSkipped = [], errors = [],
      journalPath = None\<rparr>"

text \<open>
  \<^verbatim>\<open>rollback\<close> up to the end of the staging loop: the journal directories, the first
  journal write, the staging directories and the staging of every inverse change. The
  value is \<open>Inl\<close> of the result returned by the outer \<^verbatim>\<open>catch\<close> when one of the calls
  before the loop throws.
\<close>

definition rollback_staging :: "SessionRollback \<Rightarrow> SessionManifestV1 \<Rightarrow> content fsys
    \<Rightarrow> (RollbackResult + staged_files \<times> path list \<times> RollbackResult) \<times> content fsys" where
  "rollback_staging rb manifest st =
     (let sid = manifest_sessionId manifest;
          jpath = journalPath_of rb sid;
          stagingDir = stagingDir_of rb sid
      in case io_bind (fs_mkdir (path_join [journalDir rb, ''pending''])) (\<lambda>_.
              io_bind (fs_mkdir (path_join [journalDir rb, ''committed''])) (\<lambda>_.
              fs_writeFile jpath (JournalFile (initial_journal rb manifest)))) st of
           (Inl e, st1) \<Rightarrow> (Inl (session_failure empty_result e), st1)
         | (Inr _, st1) \<Rightarrow>
             (let result1 = empty_result\<lparr>journalPath := Some jpath\<rparr>
              in case io_bind (fs_mkdir stagingDir) (\<lambda>_.
                      fs_mkdir (path_join [stagingDir, ''.deleted''])) st1 of
                   (Inl e, st2) \<Rightarrow> (Inl (session_failure result1 e), st2)
                 | (Inr _, st2) \<Rightarrow>
                     (case stage_all rb stagingDir (reverseChanges (filesChanged manifest))
                             ([], [], result1) st2 of
                        (acc, st3) \<Rightarrow> (Inr acc, st3))))"

text \<open>The swap and the commit, from \<^verbatim>\<open>atomicSwap\<close> to the end of \<^verbatim>\<open>rollback\<close>.\<close>

definition rollback_commit :: "SessionRollback \<Rightarrow> SessionManifestV1 \<Rightarrow> staged_files
    \<Rightarrow> path list \<Rightarrow> RollbackResult \<Rightarrow> content fsys \<Rightarrow> RollbackResult \<times> content fsys" where
  "rollback_commit rb manifest stagedFiles filesToDelete result st =
     (let sid = manifest_sessionId manifest;
          jpath = journalPath_of rb sid
      in case atomicSwap rb stagedFiles filesToDelete sid st of
           ((swapResult, bks), st1) \<Rightarrow>
             (let result' = result\<lparr>filesReverted := sw_reverted swapResult,
                                    filesSkipped := filesSkipped result @ sw_skipped swapResult,
                                    errors := errors result @ sw_errors swapResult,
                                    success := sw_success swapResult\<rparr>;
                  journal = (initial_journal rb manifest)\<lparr>backups := bks\<rparr>
              in try_step result'
                   (if sw_success swapResult
                    then io_bind (fs_writeFile (committedPath_of rb sid)
                                    (JournalFile (journal\<lparr>status := committed\<rparr>))) (\<lambda>_.
                         io_bind (fs_unlink jpath) (\<lambda>_. unlink_backups bks))
                    else fs_writeFile jpath (JournalFile (journal\<lparr>status := pending\<rparr>)))
                   (\<lambda>st2. (result', cleanupStaging (stagingDir_of rb sid) st2)) st1))"

definition rollback :: "SessionRollback \<Rightarrow> SessionManifestV1 \<Rightarrow> RollbackOptions
    \<Rightarrow> content fsys \<Rightarrow> RollbackResult \<times> content fsys" where
  "rollback rb manifest options st =
     (let sid = manifest_sessionId manifest;
          jpath = journalPath_of rb sid;
          stagingDir = stagingDir_of rb sid
      in case rollback_staging rb manifest st of
           (Inl failed, st1) \<Rightarrow> (failed, st1)
         | (Inr (stagedFiles, filesToDelete, result), st1) \<Rightarrow>
             (let validationErrors =
                    (if skipVerification options then [] else validateStaging stagedFiles)
              in if validationErrors \<noteq> []
                 then
                   (let result' = result\<lparr>errors := errors result @ validationErrors,
                                          filesSkipped := filesSkipped result
                                                          @ map fst validationErrors\<rparr>
                    in try_step result'
                         (fs_writeFile jpath
                            (JournalFile ((initial_journal rb manifest)\<lparr>status := rolled_back\<rparr>)))
                         (\<lambda>st3. (result', st3))
                         (cleanupStaging stagingDir st1))
                 else if dryRun options
                 then
                   (let result' = result\<lparr>success := True,
                                          filesReverted := map fst stagedFiles\<rparr>
                    in try_step result' (fs_unlink jpath) (\<lambda>st3. (result', st3))
                         (cleanupStaging stagingDir st1))
                 else rollback_commit rb manifest stagedFiles filesToDelete result st1))"

section \<open>Recovery sweeper\<close>

datatype RecoveryStatus = recovered | cleaned | failed

record RecoveryResult =
  recovery_sessionId :: string
  recovery_status :: RecoveryStatus
  filesRestored :: nat
  recovery_error :: "string option"

definition checkBackupsExist :: "(path \<times> path) list \<Rightarrow> content fsys \<Rightarrow> bool" where
  "checkBackupsExist bks st = list_ex (\<lambda>ob. existsSync (snd ob) st) bks"

text \<open>
  One turn of the loop of \<^verbatim>\<open>rollbackFromBackups\<close>, with its \<^verbatim>\<open>try\<close>/\<^verbatim>\<open>catch\<close>: the count
  is raised as soon as the rename has succeeded.
\<close>

definition restore_one :: "path \<times> path \<Rightarrow> nat \<Rightarrow> content fsys \<Rightarrow> nat \<times> content fsys" where
  "restore_one ob restoredCount st =
     (if \<not> existsSync (snd ob) st then (restoredCount, st)
      else case safeRename (snd ob) (fst ob) st of
             (Inl e, st1) \<Rightarrow> (restoredCount, st1)
           | (Inr _, st1) \<Rightarrow>
               if existsSync (snd ob) st1
               then (Suc restoredCount, snd (fs_unlink (snd ob) st1))
               else (Suc restoredCount, st1))"

fun rollbackFromBackups :: "(path \<times> path) list \<Rightarrow> nat \<Rightarrow> content fsys
    \<Rightarrow> nat \<times> content fsys" where
  "rollbackFromBackups [] restoredCount st = (restoredCount, st)"
| "rollbackFromBackups (ob # rest) restoredCount st =
     (case restore_one ob restoredCount st of
        (restoredCount', st1) \<Rightarrow> rollbackFromBackups rest restoredCount' st1)"

definition recoverJournal :: "JournalEntry \<Rightarrow> path \<Rightarrow> content fsys
    \<Rightarrow> RecoveryResult \<times> content fsys" where
  "recoverJournal journal jpath st =
     (let result = \<lparr>recovery_sessionId = journal_sessionId journal,
                     recovery_status = cleaned, filesRestored = 0, recovery_error = None\<rparr>
      in if \<not> checkBackupsExist (backups journal) st
         then case fs_unlink jpath st of
                (Inl e, st1) \<Rightarrow>
                  (result\<lparr>recovery_status := failed,
                          recovery_error := Some (message_of e)\<rparr>, st1)
              | (Inr _, st1) \<Rightarrow> (result\<lparr>recovery_status := cleaned\<rparr>, st1)
         else case rollbackFromBackups (backups journal) 0 st of
                (restoredCount, st1) \<Rightarrow>
                  (let result' = result\<lparr>filesRestored := restoredCount,
                                         recovery_status := recovered\<rparr>
                   in case fs_unlink jpath st1 of
                        (Inl e, st2) \<Rightarrow>
                          (result'\<lparr>recovery_status := failed,
                                   recovery_error := Some (message_of e)\<rparr>, st2)
                      | (Inr _, st2) \<Rightarrow> (result', st2)))"

text \<open>
  The sweep of one journal as the specification words it, on the map of files: a backup
  that exists is renamed back to its original and any residual backup is unlinked; then
  the journal file is deleted. When no backup exists only the journal file is deleted.
\<close>

definition spec_restore_pair :: "path \<times> path \<Rightarrow> (path \<rightharpoonup> content) \<Rightarrow> (path \<rightharpoonup> content)" where
  "spec_restore_pair ob fm =
     (case fm (snd ob) of
        None \<Rightarrow> fm
      | Some c \<Rightarrow> (fm(snd ob := None, fst ob \<mapsto> c))(snd ob := None))"

definition spec_recover :: "(path \<times> path) list \<Rightarrow> path \<Rightarrow> (path \<rightharpoonup> content)
    \<Rightarrow> (path \<rightharpoonup> content)" where
  "spec_recover bks jpath fm =
     (if list_all (\<lambda>ob. fm (snd ob) = None) bks then fm(jpath := None)
      else (fold spec_restore_pair bks fm)(jpath := None))"

text \<open>
  A fault schedule under which no call fails, except that a rename may fail with
  \<^verbatim>\<open>EXDEV\<close>.
\<close>

definition benign :: "'c fsys \<Rightarrow> bool" where
  "benign st =
     (\<forall>n c. faults st n c = None
            \<or> (faults st n c = Some EXDEV \<and> (\<exists>src dst. c = OpRename src dst)))"

section \<open>Auxiliary notions and test inputs\<close>

text \<open>
  \<open>touches_only P st st'\<close>: going from \<open>st\<close> to \<open>st'\<close> the fault schedule is the same and
  every file whose path does not satisfy \<open>P\<close> is the same.
\<close>

definition touches_only :: "(path \<Rightarrow> bool) \<Rightarrow> 'c fsys \<Rightarrow> 'c fsys \<Rightarrow> bool" where
  "touches_only P st st' =
     (faults st' = faults st \<and> (\<forall>q. \<not> P q \<longrightarrow> files st' q = files st q))"


text \<open>
  Test inputs: an engine rooted at \<open>/work\<close> whose BlobStore knows two blobs, a session
  that deleted \<open>a.txt\<close> and \<open>b.txt\<close>, and file systems with a single permanent fault.
\<close>

definition test_rollback :: SessionRollback where
  "test_rollback =
     \<lparr>rb_workspaceRoot = ''/work'',
      rb_blobStore_get = (\<lambda>h. if h = ''ha'' then Inr (Some [1])
                               else if h = ''hb'' then Inr (Some [2]) else Inr None),
      journalDir = ''/work/.sb_journal'', rb_now = 0\<rparr>"


definition empty_manifest :: SessionManifestV1 where
  "empty_manifest = \<lparr>manifest_sessionId = ''s1'', filesChanged = []\<rparr>"

definition faulty_fs :: "fsop \<Rightarrow> errno \<Rightarrow> content fsys" where
  "faulty_fs c e =
     \<lparr>files = Map.empty, dirs = {}, faults = (\<lambda>n c'. if c' = c then Some e else None),
      clock = 0\<rparr>"

definition test_journal :: JournalEntry where
  "test_journal =
     \<lparr>journal_sessionId = ''s1'', timestamp = 0, journal_workspaceRoot = ''/work'',
      journal_changes = [], backups = [(''/work/a.txt'', ''/work/a.txt.bak-s1'')],
      status = pending\<rparr>"

definition crashed_fs :: "content fsys" where
  "crashed_fs =
     \<lparr>files = [''/work/a.txt'' \<mapsto> Bytes [2], ''/work/a.txt.bak-s1'' \<mapsto> Bytes [1],
               ''/work/.sb_journal/pending/s1.json'' \<mapsto> JournalFile test_journal],
      dirs = {},
      faults = (\<lambda>n c. case c of OpRename src dst \<Rightarrow> Some EXDEV | _ \<Rightarrow> None),
      clock = 0\<rparr>"

section \<open>Properties of the inverse change list\<close>

lemma inverse_change_spec:
  "op c \<noteq> renamed \<or> has_from c \<Longrightarrow> spec_inverse_rel c (inverse_change c)"
  by (cases "op c")
     (auto simp: spec_inverse_rel_def inverse_change_def has_from_def or_else_def
           split: option.splits)

lemma inverse_change_no_from:
  "op c = renamed \<Longrightarrow> \<not> has_from c \<Longrightarrow>
   op (inverse_change c) = renamed \<and> p (inverse_change c) = p c
   \<and> frm (inverse_change c) = Some (p c)
   \<and> hOld (inverse_change c) = hNew c \<and> hNew (inverse_change c) = hOld c"
  by (auto simp: inverse_change_def has_from_def or_else_def split: option.splits)

text \<open>
  C1 (as stated, refuted). A rename tracked without a source path (\<^verbatim>\<open>from\<close> undefined)
  is not inverted by swapping \<^verbatim>\<open>p\<close> and \<^verbatim>\<open>from\<close>: the inverse keeps the path.
\<close>

theorem reverseChanges_rename_counterexample:
  "\<not> list_all2 spec_inverse_rel
        (rev [mk_change ''new.txt'' renamed])
        (reverseChanges [mk_change ''new.txt'' renamed])"
  by (simp add: reverseChanges_def inverse_change_def spec_inverse_rel_def mk_change_def
        or_else_def)

text \<open>
  C1 (amended). For every list of changes, the inverse list is the reversed list mapped
  record by record: each record that is not a rename, and each rename that carries a
  non-empty source path, is inverted as the specification says (created to deleted,
  modified with every before/after pair swapped, deleted to created, renamed with path
  and source path swapped and the digests swapped); a rename without a source path keeps
  its path, gets that same path as source path, and has its digests swapped.
\<close>

theorem reverseChanges_inverse:
  "length (reverseChanges cs) = length cs \<and>
   list_all2
     (\<lambda>c i. (if op c = renamed \<and> \<not> has_from c
              then op i = renamed \<and> p i = p c \<and> frm i = Some (p c)
                   \<and> hOld i = hNew c \<and> hNew i = hOld c
              else spec_inverse_rel c i))
     (rev cs) (reverseChanges cs)"
proof -
  have "list_all2
     (\<lambda>c i. (if op c = renamed \<and> \<not> has_from c
              then op i = renamed \<and> p i = p c \<and> frm i = Some (p c)
                   \<and> hOld i = hNew c \<and> hNew i = hOld c
              else spec_inverse_rel c i))
     xs (map inverse_change xs)" for xs
  proof (induction xs)
    case Nil
    show ?case by simp
  next
    case (Cons x xs)
    have "spec_inverse_rel x (inverse_change x)" if "\<not> (op x = renamed \<and> \<not> has_from x)"
      using that inverse_change_spec [of x] by blast
    with Cons inverse_change_no_from [of x] show ?case by auto
  qed
  then show ?thesis by (simp add: reverseChanges_def)
qed

theorem reverseChanges_inverse_witness:
  "reverseChanges
     [(mk_change ''a.txt'' created)\<lparr>hNew := Some ''aa''\<rparr>,
      (mk_change ''new.txt'' renamed)\<lparr>frm := Some ''old.txt'', hOld := Some ''bb'',
                                        hNew := Some ''cc''\<rparr>]
   = [(mk_change ''old.txt'' renamed)\<lparr>frm := Some ''new.txt'', hOld := Some ''cc'',
                                        hNew := Some ''bb''\<rparr>,
      (mk_change ''a.txt'' deleted)\<lparr>hOld := Some ''aa''\<rparr>]
   \<and> length (reverseChanges [mk_change ''new.txt'' renamed]) = 1"
  using reverseChanges_inverse [of "[mk_change ''new.txt'' renamed]"]
  by (simp add: reverseChanges_def inverse_change_def mk_change_def or_else_def)

section \<open>Properties of the digests\<close>

lemma length_hex: "length (hex bs) = 2 * length bs"
  by (induction bs) (simp_all add: hex_def)

lemma list8: "length s = 8 \<Longrightarrow> \<exists>a b c d e f g h. s = [a, b, c, d, e, f, g, h]"
  by (auto simp: length_Suc_conv numeral_eq_Suc)

lemma length_round: "length s = 8 \<Longrightarrow> length (round s kw) = 8"
proof -
  assume "length s = 8"
  then obtain a b c d e f g h where "s = [a, b, c, d, e, f, g, h]"
    using list8 by blast
  then show ?thesis by (cases kw) (simp add: Let_def)
qed

lemma length_foldl_round: "length s = 8 \<Longrightarrow> length (foldl round s kws) = 8"
  by (induction kws arbitrary: s) (simp_all add: length_round)

lemma length_compress: "length hs = 8 \<Longrightarrow> length (compress hs blk) = 8"
  by (simp add: compress_def length_foldl_round)

lemma length_foldl_compress: "length hs = 8 \<Longrightarrow> length (foldl compress hs blks) = 8"
  by (induction blks arbitrary: hs) (simp_all add: length_compress)

lemma length_concat_bytes: "length (concat (map bytes_of_u32 ws)) = 4 * length ws"
  by (induction ws) (simp_all add: bytes_of_u32_def)

lemma length_sha256: "length (sha256 m) = 32"
  by (simp add: sha256_def length_concat_bytes length_foldl_compress sha256_H0_def)

text \<open>A hexadecimal SHA-256 digest has 64 characters; in particular it is not empty.\<close>

lemma length_sha256_hex: "length (sha256_hex m) = 64"
  by (simp add: sha256_hex_def length_hex length_sha256)

lemma sha256_hex_not_empty: "sha256_hex m \<noteq> ''''"
  using length_sha256_hex [of m] by auto

section \<open>Properties of the fingerprint\<close>

text \<open>
  Two digests computed by evaluation: of two fingerprint lines one after the other, and
  of the same lines with a newline between them.
\<close>

lemma sha256_two_lines_concat:
  "sha256_hex (bytes_of ''a:created::b:created::'')
   = ''49ef7ff9163092e28445bec7301283ef51e08a4d154dccc839f167c5b4441493''"
  by code_simp

lemma sha256_two_lines_joined:
  "sha256_hex (bytes_of (''a:created::'' @ [CHR 0x0A] @ ''b:created::''))
   = ''63754620459997ec8a26fee7b02206a78e9ff8acf355990f0b0d45e59320be46''"
  by code_simp

text \<open>
  C8 (as stated, refuted). For the empty change list the fingerprint is the empty string,
  not the SHA-256 of the empty text; for two changes it is the SHA-256 of the two lines
  with nothing between them, which is not the SHA-256 of the lines joined with a newline.
\<close>

theorem computeFingerprint_counterexample:
  "computeFingerprint [] \<noteq> spec_fingerprint []
   \<and> computeFingerprint [mk_change ''a'' created, mk_change ''b'' created]
       \<noteq> spec_fingerprint [mk_change ''a'' created, mk_change ''b'' created]"
proof -
  have s: "sort [''a:created::'', ''b:created::''] = [''a:created::'', ''b:created::'']"
    by simp
  have c: "computeFingerprint [mk_change ''a'' created, mk_change ''b'' created]
           = sha256_hex (bytes_of ''a:created::b:created::'')"
    using s
    by (simp add: computeFingerprint_def fingerprint_item_def mk_change_def op_name_def
          or_else_def)
  have j: "spec_fingerprint [mk_change ''a'' created, mk_change ''b'' created]
           = sha256_hex (bytes_of (''a:created::'' @ [CHR 0x0A] @ ''b:created::''))"
    using s
    by (simp add: spec_fingerprint_def fingerprint_item_def mk_change_def op_name_def
          or_else_def)
  have e: "computeFingerprint [] \<noteq> spec_fingerprint []"
    using sha256_hex_not_empty [of "bytes_of ''''"]
    by (simp add: computeFingerprint_def spec_fingerprint_def)
  show ?thesis
    unfolding c j sha256_two_lines_concat sha256_two_lines_joined
    using e by simp
qed

text \<open>
  C8 (amended). For every non-empty list of changes, the fingerprint is the SHA-256 of the
  ascending-sorted lines \<open>path:op:(digestBefore or empty):(digestAfter or empty)\<close>, one
  per change, concatenated with no separator; for the empty list it is the empty string.
\<close>

theorem computeFingerprint_sorted_concat:
  "computeFingerprint changes =
     (if changes = [] then ''''
      else sha256_hex (bytes_of (concat (sort
             (map (\<lambda>c. p c @ '':'' @ op_name (op c) @ '':'' @ or_else (hOld c) ''''
                        @ '':'' @ or_else (hNew c) '''') changes)))))
   \<and> sorted (sort (map fingerprint_item changes))
   \<and> mset (sort (map fingerprint_item changes)) = mset (map fingerprint_item changes)"
  by (simp add: computeFingerprint_def fingerprint_item_def [abs_def])

theorem computeFingerprint_sorted_concat_witness:
  "computeFingerprint [] = ''''
   \<and> computeFingerprint [(mk_change ''a'' modified)\<lparr>hOld := Some ''x'', hNew := Some ''y''\<rparr>]
       = sha256_hex (bytes_of ''a:modified:x:y'')"
  using computeFingerprint_sorted_concat
          [of "[(mk_change ''a'' modified)\<lparr>hOld := Some ''x'', hNew := Some ''y''\<rparr>]"]
        computeFingerprint_sorted_concat [of "[]"]
  by (simp add: mk_change_def op_name_def or_else_def)

section \<open>Properties of the BlobStore\<close>

lemma existsSync_clock [simp]: "existsSync q (st\<lparr>clock := n\<rparr>) = existsSync q st"
  by (simp add: existsSync_def)





text \<open>
  C7. \<open>get\<close> returns bytes only when their recomputed SHA-256 equals the requested
  digest; when the blob file is read and its digest differs, the result is the error
  \<open>HASH_MISMATCH\<close>; when there is no blob file, the result is a success carrying no
  bytes. The two outcomes are different values.
\<close>

theorem get_verifies_digest:
  "(fst (get bs h st) = Inr (Some bytes) \<longrightarrow> sha256_hex bytes = h)
   \<and> (initialized bs \<and> files st (getFilePath bs h) = Some c
        \<and> faults st (clock st) (OpReadFile (getFilePath bs h)) = None
        \<and> sha256_hex c \<noteq> h
      \<longrightarrow> (\<exists>m. fst (get bs h st) = Inl \<lparr>code = HASH_MISMATCH, message = m\<rparr>))
   \<and> (initialized bs \<and> \<not> existsSync (getFilePath bs h) st
      \<longrightarrow> fst (get bs h st) = Inr None)
   \<and> (Inl \<lparr>code = HASH_MISMATCH, message = m'\<rparr> :: byte list option blob_result) \<noteq> Inr None"
  by (auto simp: get_def blob_err_def Let_def existsSync_def fs_readFile_def sys_call_def
        lz4_decompress_def split: if_splits prod.splits sum.splits option.splits)

theorem get_verifies_digest_witness:
  "(\<exists>m. fst (get \<lparr>basePath = ''/blobs'', initialized = True\<rparr> ''00''
            (fs_of [getFilePath \<lparr>basePath = ''/blobs'', initialized = True\<rparr> ''00''
                      \<mapsto> [1, 2, 3]]))
        = Inl \<lparr>code = HASH_MISMATCH, message = m\<rparr>)
   \<and> fst (get \<lparr>basePath = ''/blobs'', initialized = True\<rparr> ''00'' (fs_of Map.empty))
     = Inr None
   \<and> fst (get \<lparr>basePath = ''/blobs'', initialized = True\<rparr> (sha256_hex [1, 2, 3])
            (fs_of [getFilePath \<lparr>basePath = ''/blobs'', initialized = True\<rparr>
                      (sha256_hex [1, 2, 3]) \<mapsto> [1, 2, 3]]))
     = Inr (Some [1, 2, 3])"
proof -
  let ?bs = "\<lparr>basePath = ''/blobs'', initialized = True\<rparr>"
  have ne: "sha256_hex [1, 2, 3] \<noteq> ''00''"
    using length_sha256_hex [of "[1, 2, 3]"] by auto
  have a: "\<exists>m. fst (get ?bs ''00'' (fs_of [getFilePath ?bs ''00'' \<mapsto> [1, 2, 3]]))
             = Inl \<lparr>code = HASH_MISMATCH, message = m\<rparr>"
    using get_verifies_digest
            [of ?bs "''00''" "fs_of [getFilePath ?bs ''00'' \<mapsto> [1, 2, 3]]" _ "[1, 2, 3]"] ne
    by (simp add: fs_of_def)
  have b: "fst (get ?bs ''00'' (fs_of Map.empty)) = Inr None"
    using get_verifies_digest [of ?bs "''00''" "fs_of Map.empty"]
    by (simp add: fs_of_def existsSync_def)
  have c: "fst (get ?bs (sha256_hex [1, 2, 3])
                 (fs_of [getFilePath ?bs (sha256_hex [1, 2, 3]) \<mapsto> [1, 2, 3]]))
           = Inr (Some [1, 2, 3])"
    by (simp add: get_def Let_def fs_of_def existsSync_def fs_readFile_def sys_call_def
          lz4_decompress_def)
  from a b c show ?thesis by blast
qed

section \<open>Properties of the session manager\<close>

lemma hash_change_fields:
  "hOld (fst (hash_change mgr c st)) = hOld c
   \<and> p (fst (hash_change mgr c st)) = p c
   \<and> op (fst (hash_change mgr c st)) = op c"
  by (simp add: hash_change_def Let_def split: prod.splits sum.splits)

lemma computeDeferredHashes_fields:
  "map hOld (fst (computeDeferredHashes mgr cs st)) = map hOld cs
   \<and> map p (fst (computeDeferredHashes mgr cs st)) = map p cs
   \<and> map op (fst (computeDeferredHashes mgr cs st)) = map op cs"
proof (induction cs arbitrary: st)
  case Nil
  show ?case by simp
next
  case (Cons c cs)
  obtain c' st1 where hc: "hash_change mgr c st = (c', st1)"
    by (cases "hash_change mgr c st")
  obtain cs' st2 where r: "computeDeferredHashes mgr cs st1 = (cs', st2)"
    by (cases "computeDeferredHashes mgr cs st1")
  have "hOld c' = hOld c \<and> p c' = p c \<and> op c' = op c"
    using hash_change_fields [of mgr c st] hc by simp
  moreover have "map hOld cs' = map hOld cs \<and> map p cs' = map p cs \<and> map op cs' = map op cs"
    using Cons.IH [of st1] r by simp
  ultimately show ?case
    using hc r by simp
qed

lemma normalizePath_inside:
  "normalizePath test_manager ''/work/a.txt'' = ''a.txt''"
  by (simp add: normalizePath_def path_relative_def resolve_segs_def is_absolute_def
        test_manager_def)

text \<open>
  C2 (the code at the failing input). The file \<open>/work/a.txt\<close> holds \<open>A\<close> before the
  session; it is tracked as modified and the session is finalized. The tracked record has
  no \<open>hOld\<close>, the finalized record has none either, and \<open>track\<close> does not touch the
  BlobStore or the file system at all (it only returns a manager).
\<close>

theorem finalize_leaves_hOld_empty:
  "map hOld (changeBuffer (the (activeSession
       (track test_manager ''/work/a.txt'' modified None)))) = [None]
   \<and> (case finalize (track test_manager ''/work/a.txt'' modified None)
             (fs_of [''/work/a.txt'' \<mapsto> bytes_of ''A'']) of
        (Inr ((sid, n, changes), mgr'), st') \<Rightarrow>
           n = 1 \<and> map p changes = [''a.txt''] \<and> map op changes = [modified]
           \<and> map hOld changes = [None]
      | (Inl e, st') \<Rightarrow> False)"
proof -
  let ?mgr = "track test_manager ''/work/a.txt'' modified None"
  let ?st = "fs_of [''/work/a.txt'' \<mapsto> bytes_of ''A''] :: byte list fsys"
  have buf: "changeBuffer (the (activeSession ?mgr))
             = [(mk_change ''a.txt'' modified)]"
    using normalizePath_inside
    by (simp add: track_def Let_def track_from_def mk_change_def test_manager_def)
  have act: "activeSession ?mgr
             = Some \<lparr>sessionId = ''s1'', startedAt = 0, triggers = [filewatch],
                     changeBuffer = [mk_change ''a.txt'' modified]\<rparr>"
    using normalizePath_inside
    by (simp add: track_def Let_def track_from_def mk_change_def test_manager_def)
  have h: "map hOld (fst (computeDeferredHashes ?mgr [mk_change ''a.txt'' modified] ?st))
           = [None]"
    using computeDeferredHashes_fields [of ?mgr "[mk_change ''a.txt'' modified]" ?st]
    by (simp only: mk_change_def list.map SessionChange.simps)
  have pp: "map p (fst (computeDeferredHashes ?mgr [mk_change ''a.txt'' modified] ?st))
           = [''a.txt'']"
    using computeDeferredHashes_fields [of ?mgr "[mk_change ''a.txt'' modified]" ?st]
    by (simp only: mk_change_def list.map SessionChange.simps)
  have oo: "map op (fst (computeDeferredHashes ?mgr [mk_change ''a.txt'' modified] ?st))
           = [modified]"
    using computeDeferredHashes_fields [of ?mgr "[mk_change ''a.txt'' modified]" ?st]
    by (simp only: mk_change_def list.map SessionChange.simps)
  have b0: "hOld (mk_change ''a.txt'' modified) = None"
    by (simp add: mk_change_def)
  show ?thesis
    using buf act h pp oo b0
    by (simp add: finalize_def split: prod.splits)
qed

text \<open>
  C9 (the code at the failing input). A path outside the workspace root is tracked and
  stored with a leading \<open>..\<close> segment, and a path with a NUL byte is stored with it;
  neither call is rejected, although \<open>validatePath\<close> refuses both stored paths.
\<close>

theorem track_stores_unsafe_path:
  "map p (changeBuffer (the (activeSession
       (track test_manager ''/etc/passwd'' modified None)))) = [''../etc/passwd'']
   \<and> \<not> path_is_safe ''../etc/passwd''
   \<and> map p (changeBuffer (the (activeSession
       (track test_manager (''/work/a'' @ [CHR 0x00] @ ''b'') created None))))
       = [''a'' @ [CHR 0x00] @ ''b'']
   \<and> \<not> path_is_safe (''a'' @ [CHR 0x00] @ ''b'')"
  by (simp add: track_def Let_def track_from_def test_manager_def normalizePath_def
        path_relative_def resolve_segs_def is_absolute_def path_is_safe_def)

section \<open>Properties of the recovery sweeper\<close>

lemma benign_rename:
  "benign st \<Longrightarrow> faults st n (OpRename src dst) = Some e \<Longrightarrow> e = EXDEV"
  unfolding benign_def by (metis option.distinct(1) option.inject)

lemma benign_other:
  "benign st \<Longrightarrow> \<forall>src dst. c \<noteq> OpRename src dst \<Longrightarrow> faults st n c = None"
  unfolding benign_def by metis

lemma safeRename_benign:
  assumes "benign st" and "files st b = Some c"
  shows "\<exists>st'. safeRename b orig st = (Inr (), st')
          \<and> faults st' = faults st \<and> dirs st' = dirs st
          \<and> (files st')(b := None) = ((files st)(b := None, orig \<mapsto> c))(b := None)"
proof (cases "faults st (clock st) (OpRename b orig)")
  case None
  then show ?thesis
    using assms(2)
    by (simp add: safeRename_def io_catch_def fs_rename_def sys_call_def Let_def)
next
  case (Some e)
  then have e: "e = EXDEV"
    using assms(1) benign_rename by blast
  have c1: "faults st (Suc (clock st)) (OpCopyFile b orig) = None"
    using assms(1) by (simp add: benign_other)
  have c2: "faults st (Suc (Suc (clock st))) (OpUnlink b) = None"
    using assms(1) by (simp add: benign_other)
  show ?thesis
    using Some e c1 c2 assms(2)
    by (auto simp: safeRename_def io_catch_def io_bind_def fs_rename_def fs_copyFile_def
          fs_unlink_def sys_call_def Let_def fun_upd_twist)
qed

lemma restore_one_benign:
  assumes "benign st" and "snd ob \<notin> dirs st"
  shows "files (snd (restore_one ob n st)) = spec_restore_pair ob (files st)
         \<and> faults (snd (restore_one ob n st)) = faults st
         \<and> dirs (snd (restore_one ob n st)) = dirs st"
proof (cases "files st (snd ob)")
  case None
  then show ?thesis
    using assms(2) by (simp add: restore_one_def existsSync_def spec_restore_pair_def)
next
  case (Some c)
  obtain st1 where r: "safeRename (snd ob) (fst ob) st = (Inr (), st1)"
      and f1: "faults st1 = faults st" and d1: "dirs st1 = dirs st"
      and m1: "(files st1)(snd ob := None)
               = ((files st)(snd ob := None, fst ob \<mapsto> c))(snd ob := None)"
    using safeRename_benign [OF assms(1) Some] by blast
  have b1: "benign st1"
    using assms(1) f1 by (simp add: benign_def)
  show ?thesis
  proof (cases "files st1 (snd ob)")
    case None
    then have "files st1 = (files st1)(snd ob := None)"
      by auto
    then show ?thesis
      using r Some None m1 f1 d1 assms(2)
      by (simp add: restore_one_def existsSync_def spec_restore_pair_def)
  next
    case (Some c')
    have "faults st1 (clock st1) (OpUnlink (snd ob)) = None"
      using b1 by (simp add: benign_other)
    then have "files (snd (fs_unlink (snd ob) st1)) = (files st1)(snd ob := None)
               \<and> faults (snd (fs_unlink (snd ob) st1)) = faults st1
               \<and> dirs (snd (fs_unlink (snd ob) st1)) = dirs st1"
      using Some by (simp add: fs_unlink_def sys_call_def Let_def)
    then show ?thesis
      using r \<open>files st (snd ob) = Some c\<close> Some m1 f1 d1
      by (simp add: restore_one_def existsSync_def spec_restore_pair_def)
  qed
qed

lemma rollbackFromBackups_benign:
  assumes "benign st" and "\<forall>ob \<in> set bks. snd ob \<notin> dirs st"
  shows "files (snd (rollbackFromBackups bks n st)) = fold spec_restore_pair bks (files st)
         \<and> faults (snd (rollbackFromBackups bks n st)) = faults st
         \<and> dirs (snd (rollbackFromBackups bks n st)) = dirs st"
  using assms
proof (induction bks arbitrary: n st)
  case Nil
  show ?case by simp
next
  case (Cons ob bks)
  obtain n1 st1 where s: "restore_one ob n st = (n1, st1)"
    by (cases "restore_one ob n st")
  have one: "files st1 = spec_restore_pair ob (files st)
             \<and> faults st1 = faults st \<and> dirs st1 = dirs st"
    using restore_one_benign [of st ob n] Cons.prems s by simp
  then have "benign st1" and "\<forall>ob \<in> set bks. snd ob \<notin> dirs st1"
    using Cons.prems by (simp_all add: benign_def)
  then show ?case
    using Cons.IH [of st1 n1] one s by simp
qed

lemma spec_restore_pair_other:
  "q \<noteq> fst ob \<Longrightarrow> q \<noteq> snd ob \<Longrightarrow> spec_restore_pair ob fm q = fm q"
  by (simp add: spec_restore_pair_def split: option.splits)

lemma spec_restore_pair_keeps:
  "q \<noteq> snd ob \<Longrightarrow> fm q \<noteq> None \<Longrightarrow> spec_restore_pair ob fm q \<noteq> None"
  by (simp add: spec_restore_pair_def split: option.splits)

lemma fold_spec_restore_keeps:
  "q \<notin> snd ` set bks \<Longrightarrow> fm q \<noteq> None \<Longrightarrow> fold spec_restore_pair bks fm q \<noteq> None"
proof (induction bks arbitrary: fm)
  case Nil
  then show ?case by simp
next
  case (Cons ob bks)
  then show ?case
    using spec_restore_pair_keeps [of q ob fm] by simp
qed

text \<open>
  C5. For a pending journal whose file exists and is not itself listed as a backup, with
  no backup path being a directory, and with file-system calls that do not fail (a rename
  may fail with \<open>EXDEV\<close>): when none of the backup files exists, the journal file is
  deleted and no other file is touched; otherwise every pair whose backup exists, taken
  in order, has its backup renamed back to the original (copy and unlink on \<open>EXDEV\<close>),
  no backup is left behind, and then the journal file is deleted.
\<close>

theorem recoverJournal_restores:
  assumes "benign st"
    and "\<forall>ob \<in> set (backups journal). snd ob \<notin> dirs st"
    and "files st jpath \<noteq> None"
    and "jpath \<notin> snd ` set (backups journal)"
  shows "files (snd (recoverJournal journal jpath st))
           = spec_recover (backups journal) jpath (files st)
         \<and> recovery_status (fst (recoverJournal journal jpath st))
           = (if list_all (\<lambda>ob. files st (snd ob) = None) (backups journal)
              then cleaned else recovered)
         \<and> files (snd (recoverJournal journal jpath st)) jpath = None"
proof -
  have ex: "checkBackupsExist (backups journal) st
            = (\<not> list_all (\<lambda>ob. files st (snd ob) = None) (backups journal))"
    using assms(2)
    by (auto simp: checkBackupsExist_def list_ex_iff list_all_iff existsSync_def)
  show ?thesis
  proof (cases "checkBackupsExist (backups journal) st")
    case False
    have "faults st (clock st) (OpUnlink jpath) = None"
      using assms(1) by (simp add: benign_other)
    then show ?thesis
      using False ex assms(3)
      by (auto simp: recoverJournal_def spec_recover_def fs_unlink_def sys_call_def Let_def)
  next
    case True
    obtain n1 st1 where r: "rollbackFromBackups (backups journal) 0 st = (n1, st1)"
      by (cases "rollbackFromBackups (backups journal) 0 st")
    have fr: "files st1 = fold spec_restore_pair (backups journal) (files st)
              \<and> faults st1 = faults st \<and> dirs st1 = dirs st"
      using rollbackFromBackups_benign [OF assms(1,2), of 0] r by simp
    then have "benign st1"
      using assms(1) by (simp add: benign_def)
    then have nf: "faults st1 (clock st1) (OpUnlink jpath) = None"
      by (simp add: benign_other)
    have "files st1 jpath \<noteq> None"
      using fr fold_spec_restore_keeps [of jpath "backups journal" "files st"] assms(3,4)
      by simp
    then show ?thesis
      using True ex r fr nf
      by (auto simp: recoverJournal_def spec_recover_def fs_unlink_def sys_call_def Let_def)
  qed
qed

theorem recoverJournal_restores_witness:
  "files (snd (recoverJournal test_journal ''/work/.sb_journal/pending/s1.json'' crashed_fs))
     = [''/work/a.txt'' \<mapsto> Bytes [1]]
   \<and> recovery_status
         (fst (recoverJournal test_journal ''/work/.sb_journal/pending/s1.json'' crashed_fs))
       = recovered"
proof -
  have b: "benign crashed_fs"
    by (auto simp: benign_def crashed_fs_def split: fsop.splits)
  have d: "\<forall>ob \<in> set (backups test_journal). snd ob \<notin> dirs crashed_fs"
    by (simp add: crashed_fs_def)
  have j: "files crashed_fs ''/work/.sb_journal/pending/s1.json'' \<noteq> None"
    by (simp add: crashed_fs_def)
  have n: "''/work/.sb_journal/pending/s1.json'' \<notin> snd ` set (backups test_journal)"
    by (simp add: test_journal_def)
  have "spec_recover (backups test_journal) ''/work/.sb_journal/pending/s1.json''
          (files crashed_fs) = [''/work/a.txt'' \<mapsto> Bytes [1]]"
    by (rule ext) (simp add: spec_recover_def spec_restore_pair_def crashed_fs_def
          test_journal_def)
  moreover have "\<not> list_all (\<lambda>ob. files crashed_fs (snd ob) = None) (backups test_journal)"
    by (simp add: crashed_fs_def test_journal_def)
  ultimately show ?thesis
    using recoverJournal_restores [OF b d j n] by simp
qed

section \<open>Properties of the rollback engine\<close>







lemma touches_unlink: "P q \<Longrightarrow> touches_only P st (snd (fs_unlink q st))"
  by (auto simp: touches_only_def fs_unlink_def sys_call_def Let_def split: option.splits)



















lemma session_failure_fields:
  "success (session_failure res e) = success res
   \<and> filesSkipped (session_failure res e) = filesSkipped res
   \<and> filesReverted (session_failure res e) = filesReverted res"
  by (simp add: session_failure_def)



lemmas io_defs =
  io_bind_def io_return_def io_throw_def io_catch_def sys_call_def fs_mkdir_def
  fs_writeFile_def fs_readFile_def fs_rename_def fs_copyFile_def fs_unlink_def fs_rm_def
  fs_utimes_def fs_chmod_def safeRename_def existsSync_def is_under_def path_join_def
  message_of_def errno_name_def

lemmas rollback_defs =
  rollback_def rollback_staging_def rollback_commit_def atomicSwap_def swap_file_def
  delete_file_def swap_failed_def try_step_def session_failure_def cleanupStaging_def
  stageChange_def validateStaging_def initial_journal_def empty_result_def
  stagingDir_of_def journalPath_of_def committedPath_of_def map_set_def set_add_def
  truthy_def truthy_num_def dirname_def reverseChanges_def inverse_change_def
  or_else_def op_name_def



text \<open>
  C10 (the code at the failing input). A dry run of a session without changes, on a file
  system where unlinking the pending journal fails: the call returns a result with
  \<open>success = True\<close> and the exception reported under \<open><session>\<close>.
\<close>

theorem rollback_session_error_with_success:
  "success (fst (rollback test_rollback empty_manifest
                   \<lparr>dryRun = True, skipVerification = False\<rparr>
                   (faulty_fs (OpUnlink ''/work/.sb_journal/pending/s1.json'') EACCES)))
   \<and> errors (fst (rollback test_rollback empty_manifest
                   \<lparr>dryRun = True, skipVerification = False\<rparr>
                   (faulty_fs (OpUnlink ''/work/.sb_journal/pending/s1.json'') EACCES)))
     = [(''<session>'', ''Rollback failed: EACCES'')]"
  by (simp add: rollback_defs io_defs test_rollback_def empty_manifest_def faulty_fs_def
        Let_def)









end
